theory Spec2Isabelle
  imports Main "HOL-Library.Word"
begin

unbundle bit_operations_syntax

section \<open>The RecDexFHE contract (contracts/recDEX\_FHE.sol)\<close>

text \<open>
  A shallow embedding of the Solidity contract \<open>RecDexFHE\<close>. Storage is a record, a
  \<open>mapping\<close> is a total function whose unwritten keys hold the zero value, \<open>uint256\<close>
  is a 256-bit word, and a \<open>revert\<close> is the \<open>Inl\<close> branch of a sum: the call then
  returns no storage, since the EVM discards every write of a reverted call. Solidity 0.8
  arithmetic is checked, so an addition that leaves the 256-bit range reverts with
  \<open>Panic(0x11)\<close>.
\<close>

subsection \<open>Types\<close>

type_synonym address = "160 word"
type_synonym uint256 = "256 word"
type_synonym bytes32 = "256 word"
type_synonym bytes = "8 word list"

text \<open>The FHE library declares \<open>euint32\<close> as a user-defined value type over \<open>bytes32\<close>.\<close>

type_synonym euint32 = "256 word"

record DecryptionContext =
  batchId :: uint256
  stateHash :: bytes32
  processed :: bool

record contract =
  owner :: address
  isProvider :: "address \<Rightarrow> bool"
  paused :: bool
  cooldownSeconds :: uint256
  lastSubmissionTime :: "address \<Rightarrow> uint256"
  lastDecryptionRequestTime :: "address \<Rightarrow> uint256"
  currentBatchId :: uint256
  isBatchClosed :: "uint256 \<Rightarrow> bool"
  decryptionContexts :: "uint256 \<Rightarrow> DecryptionContext"

text \<open>
  The custom errors of the contract, and the two reverts the compiler adds: the overflow
  panic of checked arithmetic and the failure of \<open>abi.decode\<close> on short input.
\<close>

datatype error =
    NotOwner
  | NotProvider
  | Paused
  | CooldownActive
  | InvalidBatch
  | ReplayAttempt
  | StateMismatch
  | DecryptionFailed
  | ArithmeticPanic
  | DecodeRevert

datatype event =
    OwnershipTransferred address address
  | ProviderAdded address
  | ProviderRemoved address
  | PauseToggled bool
  | CooldownSet uint256
  | BatchOpened uint256
  | BatchClosed uint256
  | EncryptedDataSubmitted address uint256 bytes32
  | DecryptionRequested uint256 uint256
  | DecryptionCompleted uint256 uint256 "uint256 list"

type_synonym 'a result = "error + 'a"

subsection \<open>What the contract takes from outside\<close>

text \<open>
  The contract calls the FHE library (\<open>@fhevm/solidity\<close>) and the built-in
  \<open>keccak256\<close>; neither is part of the repository. They are parameters of the model,
  each a function of the arguments the source passes to it. \<open>this_address\<close> is
  \<open>address(this)\<close>, fixed at deployment.
\<close>

record platform =
  this_address :: address
  keccak256 :: "bytes \<Rightarrow> bytes32"
  asEuint32 :: "32 word \<Rightarrow> euint32"
  toBytes32 :: "euint32 \<Rightarrow> bytes32"
  checkSignatures :: "uint256 \<Rightarrow> bytes \<Rightarrow> bytes \<Rightarrow> bool"

text \<open>
  What one call sees of its transaction: \<open>msg.sender\<close>, \<open>block.timestamp\<close>, and the
  identifier that \<open>FHE.requestDecryption\<close> returns if the call reaches it.
\<close>

record env =
  msg_sender :: address
  block_timestamp :: uint256
  oracle_requestId :: uint256

subsection \<open>Built-ins of the language\<close>

definition checked_add :: "uint256 \<Rightarrow> uint256 \<Rightarrow> uint256 result" where
  "checked_add a b =
     (if unat a + unat b < 2 ^ 256 then Inr (a + b) else Inl ArithmeticPanic)"

text \<open>A 256-bit word as its 32 bytes, most significant first.\<close>

definition be32 :: "uint256 \<Rightarrow> bytes" where
  "be32 w = map (\<lambda>i. ucast (drop_bit (8 * (31 - i)) w)) [0..<32]"

text \<open>
  \<open>abi.encode(cts, address(this))\<close> for a \<open>bytes32[]\<close> and an address: the head holds
  the offset of the array (64) and the padded address, the tail the length of the array
  and its elements.
\<close>

definition abi_encode :: "bytes32 list \<Rightarrow> address \<Rightarrow> bytes" where
  "abi_encode cts a =
     be32 64 @ be32 (ucast a) @ be32 (of_nat (length cts)) @ concat (map be32 cts)"

text \<open>
  \<open>abi.decode(cleartexts, (uint256))\<close> reverts on fewer than 32 bytes and reads the
  first 32 otherwise.
\<close>

definition abi_decode_uint256 :: "bytes \<Rightarrow> uint256 result" where
  "abi_decode_uint256 bs =
     (if length bs < 32 then Inl DecodeRevert
      else Inr (foldl (\<lambda>acc b. push_bit 8 acc OR ucast b) 0 (take 32 bs)))"

subsection \<open>Modifiers\<close>

definition onlyOwner :: "env \<Rightarrow> contract \<Rightarrow> 'a result \<Rightarrow> 'a result" where
  "onlyOwner e s body = (if msg_sender e \<noteq> owner s then Inl NotOwner else body)"

definition onlyProvider :: "env \<Rightarrow> contract \<Rightarrow> 'a result \<Rightarrow> 'a result" where
  "onlyProvider e s body =
     (if \<not> isProvider s (msg_sender e) then Inl NotProvider else body)"

definition whenNotPaused :: "contract \<Rightarrow> 'a result \<Rightarrow> 'a result" where
  "whenNotPaused s body = (if paused s then Inl Paused else body)"

subsection \<open>Constructor and administration\<close>

text \<open>Storage before the constructor runs: every slot is zero.\<close>

definition zero_context :: DecryptionContext where
  "zero_context = \<lparr>batchId = 0, stateHash = 0, processed = False\<rparr>"

definition empty_storage :: contract where
  "empty_storage =
     \<lparr>owner = 0, isProvider = (\<lambda>_. False), paused = False, cooldownSeconds = 0,
      lastSubmissionTime = (\<lambda>_. 0), lastDecryptionRequestTime = (\<lambda>_. 0),
      currentBatchId = 0, isBatchClosed = (\<lambda>_. False),
      decryptionContexts = (\<lambda>_. zero_context)\<rparr>"

definition constructor :: "env \<Rightarrow> contract \<times> event list" where
  "constructor e =
     (let s1 = empty_storage\<lparr>owner := msg_sender e\<rparr>;
          s2 = s1\<lparr>isProvider := (isProvider s1)(owner s1 := True)\<rparr>;
          s3 = s2\<lparr>cooldownSeconds := 60\<rparr>
      in (s3, [ProviderAdded (owner s2)]))"

definition transferOwnership ::
  "env \<Rightarrow> contract \<Rightarrow> address \<Rightarrow> (contract \<times> event list) result" where
  "transferOwnership e s newOwner =
     onlyOwner e s
       (let previousOwner = owner s
        in Inr (s\<lparr>owner := newOwner\<rparr>, [OwnershipTransferred previousOwner newOwner]))"

definition addProvider ::
  "env \<Rightarrow> contract \<Rightarrow> address \<Rightarrow> (contract \<times> event list) result" where
  "addProvider e s provider =
     onlyOwner e s
       (if \<not> isProvider s provider
        then Inr (s\<lparr>isProvider := (isProvider s)(provider := True)\<rparr>, [ProviderAdded provider])
        else Inr (s, []))"

definition removeProvider ::
  "env \<Rightarrow> contract \<Rightarrow> address \<Rightarrow> (contract \<times> event list) result" where
  "removeProvider e s provider =
     onlyOwner e s
       (if isProvider s provider
        then Inr (s\<lparr>isProvider := (isProvider s)(provider := False)\<rparr>,
                  [ProviderRemoved provider])
        else Inr (s, []))"

definition setPaused ::
  "env \<Rightarrow> contract \<Rightarrow> bool \<Rightarrow> (contract \<times> event list) result" where
  "setPaused e s p = onlyOwner e s (Inr (s\<lparr>paused := p\<rparr>, [PauseToggled p]))"

definition setCooldown ::
  "env \<Rightarrow> contract \<Rightarrow> uint256 \<Rightarrow> (contract \<times> event list) result" where
  "setCooldown e s c = onlyOwner e s (Inr (s\<lparr>cooldownSeconds := c\<rparr>, [CooldownSet c]))"

subsection \<open>Batches\<close>

definition openBatch :: "env \<Rightarrow> contract \<Rightarrow> (contract \<times> event list) result" where
  "openBatch e s =
     onlyOwner e s (whenNotPaused s
       (case checked_add (currentBatchId s) 1 of
          Inl err \<Rightarrow> Inl err
        | Inr n \<Rightarrow>
            (let s1 = s\<lparr>currentBatchId := n\<rparr>;
                 s2 = s1\<lparr>isBatchClosed := (isBatchClosed s1)(currentBatchId s1 := False)\<rparr>
             in Inr (s2, [BatchOpened (currentBatchId s2)]))))"

definition closeBatch ::
  "env \<Rightarrow> contract \<Rightarrow> uint256 \<Rightarrow> (contract \<times> event list) result" where
  "closeBatch e s b =
     onlyOwner e s (whenNotPaused s
       (if b \<noteq> currentBatchId s then Inl InvalidBatch
        else Inr (s\<lparr>isBatchClosed := (isBatchClosed s)(b := True)\<rparr>, [BatchClosed b])))"

subsection \<open>Submission\<close>

definition submitEncryptedData ::
  "env \<Rightarrow> contract \<Rightarrow> uint256 \<Rightarrow> bytes32 \<Rightarrow> (contract \<times> event list) result" where
  "submitEncryptedData e s b encryptedData =
     onlyProvider e s (whenNotPaused s
       (case checked_add (lastSubmissionTime s (msg_sender e)) (cooldownSeconds s) of
          Inl err \<Rightarrow> Inl err
        | Inr limit \<Rightarrow>
            if block_timestamp e < limit then Inl CooldownActive
            else if isBatchClosed s b then Inl InvalidBatch
            else Inr (s\<lparr>lastSubmissionTime :=
                          (lastSubmissionTime s)(msg_sender e := block_timestamp e)\<rparr>,
                      [EncryptedDataSubmitted (msg_sender e) b encryptedData])))"

subsection \<open>Decryption request and callback\<close>

text \<open>
  The list of ciphertext handles, as \<open>requestBatchSummaryDecryption\<close> builds it
  (steps 1 and 2 of its body) and as \<open>myCallback\<close> rebuilds it (step b): the source
  writes the construction out in each function, so the model has one definition for each.
\<close>

definition request_cts :: "platform \<Rightarrow> bytes32 list" where
  "request_cts P =
     (let dummySummary = asEuint32 P 0;
          cts = replicate 1 (0 :: bytes32)
      in cts[0 := toBytes32 P dummySummary])"

definition callback_cts :: "platform \<Rightarrow> bytes32 list" where
  "callback_cts P =
     (let dummySummary = asEuint32 P 0;
          cts = replicate 1 (0 :: bytes32)
      in cts[0 := toBytes32 P dummySummary])"

definition requestBatchSummaryDecryption ::
  "platform \<Rightarrow> env \<Rightarrow> contract \<Rightarrow> uint256 \<Rightarrow> (contract \<times> event list) result" where
  "requestBatchSummaryDecryption P e s b =
     onlyProvider e s (whenNotPaused s
       (case checked_add (lastDecryptionRequestTime s (msg_sender e)) (cooldownSeconds s) of
          Inl err \<Rightarrow> Inl err
        | Inr limit \<Rightarrow>
            if block_timestamp e < limit then Inl CooldownActive
            else if \<not> isBatchClosed s b then Inl InvalidBatch
            else
              (let s1 = s\<lparr>lastDecryptionRequestTime :=
                           (lastDecryptionRequestTime s)(msg_sender e := block_timestamp e)\<rparr>;
                   cts = request_cts P;
                   h = keccak256 P (abi_encode cts (this_address P));
                   requestId = oracle_requestId e;
                   s2 = s1\<lparr>decryptionContexts := (decryptionContexts s1)
                           (requestId := \<lparr>batchId = b, stateHash = h, processed = False\<rparr>)\<rparr>
               in Inr (s2, [DecryptionRequested requestId b]))))"

definition myCallback ::
  "platform \<Rightarrow> env \<Rightarrow> contract \<Rightarrow> uint256 \<Rightarrow> bytes \<Rightarrow> bytes \<Rightarrow>
     (contract \<times> event list) result" where
  "myCallback P e s requestId cleartexts prf =
     (if processed (decryptionContexts s requestId) then Inl ReplayAttempt
      else
        (let cts = callback_cts P;
             currentHash = keccak256 P (abi_encode cts (this_address P))
         in if currentHash \<noteq> stateHash (decryptionContexts s requestId) then Inl StateMismatch
            else if \<not> checkSignatures P requestId cleartexts prf then Inl DecryptionFailed
            else
              (case abi_decode_uint256 cleartexts of
                 Inl err \<Rightarrow> Inl err
               | Inr summaryValue \<Rightarrow>
                   (let s1 = s\<lparr>decryptionContexts := (decryptionContexts s)
                                (requestId := (decryptionContexts s requestId)
                                   \<lparr>processed := True\<rparr>)\<rparr>
                    in Inr (s1, [DecryptionCompleted requestId
                                   (batchId (decryptionContexts s1 requestId))
                                   [summaryValue]])))))"

subsection \<open>Transactions\<close>

datatype call =
    TransferOwnership address
  | AddProvider address
  | RemoveProvider address
  | SetPaused bool
  | SetCooldown uint256
  | OpenBatch
  | CloseBatch uint256
  | SubmitEncryptedData uint256 bytes32
  | RequestBatchSummaryDecryption uint256
  | MyCallback uint256 bytes bytes

fun dispatch ::
  "platform \<Rightarrow> env \<Rightarrow> contract \<Rightarrow> call \<Rightarrow> (contract \<times> event list) result" where
  "dispatch P e s (TransferOwnership a) = transferOwnership e s a"
| "dispatch P e s (AddProvider a) = addProvider e s a"
| "dispatch P e s (RemoveProvider a) = removeProvider e s a"
| "dispatch P e s (SetPaused p) = setPaused e s p"
| "dispatch P e s (SetCooldown c) = setCooldown e s c"
| "dispatch P e s OpenBatch = openBatch e s"
| "dispatch P e s (CloseBatch b) = closeBatch e s b"
| "dispatch P e s (SubmitEncryptedData b d) = submitEncryptedData e s b d"
| "dispatch P e s (RequestBatchSummaryDecryption b) = requestBatchSummaryDecryption P e s b"
| "dispatch P e s (MyCallback r c p) = myCallback P e s r c p"

text \<open>
  The contract as the chain sees it: its storage, the notifications it has published, and
  the request identifiers the decryption subsystem has handed out to it.
\<close>

record world =
  storage :: contract
  events :: "event list"
  issued :: "uint256 list"

definition deploy :: "env \<Rightarrow> world" where
  "deploy e = \<lparr>storage = fst (constructor e), events = snd (constructor e), issued = []\<rparr>"

fun issues :: "env \<Rightarrow> call \<Rightarrow> uint256 list" where
  "issues e (RequestBatchSummaryDecryption b) = [oracle_requestId e]"
| "issues e _ = []"

text \<open>A transaction: a reverted call leaves the world as it was.\<close>

definition transact :: "platform \<Rightarrow> world \<Rightarrow> env \<times> call \<Rightarrow> world" where
  "transact P w tx =
     (case dispatch P (fst tx) (storage w) (snd tx) of
        Inl err \<Rightarrow> w
      | Inr (s', evs) \<Rightarrow>
          \<lparr>storage = s', events = events w @ evs, issued = issues (fst tx) (snd tx) @ issued w\<rparr>)"

definition run :: "platform \<Rightarrow> world \<Rightarrow> (env \<times> call) list \<Rightarrow> world" where
  "run P w txs = foldl (transact P) w txs"

text \<open>
  Modelled from the spec: \<open>FHE.requestDecryption\<close> belongs to the decryption subsystem,
  which is not in the repository. The spec says of it that it "returns a unique
  \<open>requestId\<close> synchronously" and that the coordinator obtains "a fresh unique
  \<open>requestId\<close>" from it. A sequence of transactions is \<open>admissible\<close> when every
  decryption request in it is answered with an identifier that has not been issued before.
\<close>

fun fresh :: "world \<Rightarrow> env \<times> call \<Rightarrow> bool" where
  "fresh w (e, RequestBatchSummaryDecryption b) = (oracle_requestId e \<notin> set (issued w))"
| "fresh w (e, _) = True"

fun admissible :: "platform \<Rightarrow> world \<Rightarrow> (env \<times> call) list \<Rightarrow> bool" where
  "admissible P w [] = True"
| "admissible P w (tx # txs) = (fresh w tx \<and> admissible P (transact P w tx) txs)"

subsection \<open>Observations and a concrete run\<close>

text \<open>The completion notifications published for one request identifier.\<close>

fun completed_for :: "uint256 \<Rightarrow> event \<Rightarrow> bool" where
  "completed_for r (DecryptionCompleted r' b vs) = (r' = r)"
| "completed_for r _ = False"

text \<open>The fingerprint \<open>myCallback\<close> recomputes: \<open>currentHash\<close> in its body.\<close>

definition currentHash :: "platform \<Rightarrow> bytes32" where
  "currentHash P = keccak256 P (abi_encode (callback_cts P) (this_address P))"

text \<open>
  A platform to run the model on: the hash and the FHE operations are stand-ins (the
  hash is a non-zero constant, a proof is accepted when it is the single byte 1).
\<close>

definition test_platform :: platform where
  "test_platform =
     \<lparr>this_address = 0xD, keccak256 = (\<lambda>bs. 0x5A), asEuint32 = (\<lambda>v. ucast v),
      toBytes32 = (\<lambda>h. h), checkSignatures = (\<lambda>r c p. p = [1])\<rparr>"

definition call_env :: "address \<Rightarrow> uint256 \<Rightarrow> uint256 \<Rightarrow> env" where
  "call_env a t r = \<lparr>msg_sender = a, block_timestamp = t, oracle_requestId = r\<rparr>"

definition cleartext42 :: bytes where
  "cleartext42 = replicate 31 0 @ [42]"

text \<open>
  The end-to-end scenario of the spec, up to the request: address 1 deploys and is owner and
  provider, opens batch 1, submits into it, closes it, and requests its summary; the
  decryption subsystem answers with request identifier 7.
\<close>

definition scenario :: "(env \<times> call) list" where
  "scenario =
     [(call_env 1 100 0, OpenBatch),
      (call_env 1 100 0, SubmitEncryptedData 1 0xAB),
      (call_env 1 160 0, CloseBatch 1),
      (call_env 1 200 7, RequestBatchSummaryDecryption 1)]"

definition requested_world :: world where
  "requested_world = run test_platform (deploy (call_env 1 0 0)) scenario"

text \<open>The scenario continued: the callback for identifier 7 arrives with a valid proof.\<close>

definition finalized_world :: world where
  "finalized_world =
     transact test_platform requested_world (call_env 9 300 0, MyCallback 7 cleartext42 [1])"

text \<open>The owner has paused the contract right after deployment.\<close>

definition paused_world :: world where
  "paused_world =
     run test_platform (deploy (call_env 1 0 0)) [(call_env 1 10 0, SetPaused True)]"

text \<open>
  The owner, a provider, has submitted at time 100 and has then set the cooldown to the
  largest \<open>uint256\<close>.
\<close>

definition max_uint256 :: uint256 where
  "max_uint256 = 115792089237316195423570985008687907853269984665640564039457584007913129639935"

definition overflow_world :: world where
  "overflow_world =
     run test_platform (deploy (call_env 1 0 0))
       [(call_env 1 100 0, SubmitEncryptedData 0 0xAB),
        (call_env 1 150 0, SetCooldown max_uint256)]"

section \<open>Properties\<close>

subsection \<open>Unfolding the operations\<close>

lemmas op_defs = transferOwnership_def addProvider_def removeProvider_def setPaused_def
  setCooldown_def openBatch_def closeBatch_def submitEncryptedData_def
  requestBatchSummaryDecryption_def myCallback_def onlyOwner_def onlyProvider_def
  whenNotPaused_def

lemmas run_defs = run_def transact_def deploy_def constructor_def empty_storage_def
  call_env_def test_platform_def checked_add_def request_cts_def callback_cts_def
  currentHash_def zero_context_def cleartext42_def abi_decode_uint256_def

lemma run_Nil: "run P w [] = w"
  by (simp add: run_def)

lemma run_Cons: "run P w (tx # txs) = run P (transact P w tx) txs"
  by (simp add: run_def)

lemma run_append: "run P w (txs @ txs') = run P (run P w txs) txs'"
  by (simp add: run_def)

lemma transact_reverted:
  "dispatch P e (storage w) c = Inl err \<Longrightarrow> transact P w (e, c) = w"
  by (simp add: transact_def)

lemma transact_done:
  "dispatch P e (storage w) c = Inr (s', evs) \<Longrightarrow>
     transact P w (e, c) =
       \<lparr>storage = s', events = events w @ evs, issued = issues e c @ issued w\<rparr>"
  by (simp add: transact_def)

lemma requested_world_issued: "issued requested_world = [7]"
  by (simp add: requested_world_def scenario_def run_defs op_defs Let_def)

lemma requested_world_context:
  "decryptionContexts (storage requested_world) 7 =
     \<lparr>batchId = 1, stateHash = 0x5A, processed = False\<rparr>"
  by (simp add: requested_world_def scenario_def run_defs op_defs Let_def)

subsection \<open>A processed context stays as it is\<close>

lemma dispatch_context_kept:
  assumes "dispatch P e s c = Inr (s', evs)"
    and "processed (decryptionContexts s rid)"
    and "\<forall>b. c = RequestBatchSummaryDecryption b \<longrightarrow> oracle_requestId e \<noteq> rid"
  shows "decryptionContexts s' rid = decryptionContexts s rid
       \<and> filter (completed_for rid) evs = []"
  using assms
  by (cases c) (auto simp: op_defs Let_def split: if_splits sum.splits)

lemma transact_context_kept:
  assumes "rid \<in> set (issued w)" and "fresh w tx"
    and "processed (decryptionContexts (storage w) rid)"
  shows "decryptionContexts (storage (transact P w tx)) rid = decryptionContexts (storage w) rid
       \<and> filter (completed_for rid) (events (transact P w tx))
           = filter (completed_for rid) (events w)
       \<and> rid \<in> set (issued (transact P w tx))"
proof (cases "dispatch P (fst tx) (storage w) (snd tx)")
  case (Inl err)
  then show ?thesis using assms by (simp add: transact_def)
next
  case (Inr out)
  obtain s' evs where out: "out = (s', evs)" by (cases out)
  obtain e c where tx: "tx = (e, c)" by (cases tx)
  have "\<forall>b. c = RequestBatchSummaryDecryption b \<longrightarrow> oracle_requestId e \<noteq> rid"
    using assms(1,2) tx by auto
  with Inr out tx assms(3)
  have "decryptionContexts s' rid = decryptionContexts (storage w) rid
      \<and> filter (completed_for rid) evs = []"
    using dispatch_context_kept[of P e "storage w" c s' evs rid] by simp
  then show ?thesis using Inr out assms(1) by (simp add: transact_def)
qed

lemma run_context_kept:
  assumes "admissible P w txs" and "rid \<in> set (issued w)"
    and "processed (decryptionContexts (storage w) rid)"
  shows "decryptionContexts (storage (run P w txs)) rid = decryptionContexts (storage w) rid
       \<and> filter (completed_for rid) (events (run P w txs))
           = filter (completed_for rid) (events w)
       \<and> rid \<in> set (issued (run P w txs))"
  using assms
proof (induction txs arbitrary: w)
  case Nil
  then show ?case by (simp add: run_Nil)
next
  case (Cons tx txs)
  from Cons.prems have f: "fresh w tx" and a: "admissible P (transact P w tx) txs"
    by simp_all
  note k = transact_context_kept[OF Cons.prems(2) f Cons.prems(3), of P]
  from k Cons.prems(3)
  have p: "processed (decryptionContexts (storage (transact P w tx)) rid)" by simp
  from Cons.IH[OF a _ p] k show ?case by (simp add: run_Cons)
qed

lemma myCallback_done:
  assumes "myCallback P e s rid c p = Inr out"
  shows "\<not> processed (decryptionContexts s rid)
       \<and> currentHash P = stateHash (decryptionContexts s rid)
       \<and> checkSignatures P rid c p
       \<and> (\<exists>v. abi_decode_uint256 c = Inr v
            \<and> out = (s\<lparr>decryptionContexts := (decryptionContexts s)
                         (rid := (decryptionContexts s rid)\<lparr>processed := True\<rparr>)\<rparr>,
                     [DecryptionCompleted rid (batchId (decryptionContexts s rid)) [v]]))"
  using assms
  by (auto simp: myCallback_def currentHash_def Let_def split: if_splits sum.splits)

lemma myCallback_processed:
  "processed (decryptionContexts s rid) \<Longrightarrow> myCallback P e s rid c p = Inl ReplayAttempt"
  by (simp add: myCallback_def)

text \<open>
  Claim C1. Once the callback has finalized the context of an issued request identifier,
  the context (batch identifier, fingerprint, processed flag) and the completion
  notifications published for that identifier stay as they are through every later
  sequence of transactions in which the decryption subsystem hands out fresh identifiers,
  and every further callback for the identifier, from any caller and with any cleartext
  and proof, reverts with \<open>ReplayAttempt\<close> and changes nothing.
\<close>

theorem replay_attempt_after_finalization:
  assumes fin: "myCallback P e0 (storage w0) rid c0 p0 = Inr out"
    and iss: "rid \<in> set (issued w0)"
    and adm: "admissible P (transact P w0 (e0, MyCallback rid c0 p0)) txs"
  shows "(let w1 = transact P w0 (e0, MyCallback rid c0 p0); w2 = run P w1 txs in
           decryptionContexts (storage w1) rid
             = (decryptionContexts (storage w0) rid)\<lparr>processed := True\<rparr>
         \<and> decryptionContexts (storage w2) rid = decryptionContexts (storage w1) rid
         \<and> filter (completed_for rid) (events w2) = filter (completed_for rid) (events w1)
         \<and> myCallback P e (storage w2) rid c p = Inl ReplayAttempt
         \<and> transact P w2 (e, MyCallback rid c p) = w2)"
proof -
  define w1 where "w1 = transact P w0 (e0, MyCallback rid c0 p0)"
  define w2 where "w2 = run P w1 txs"
  obtain s' evs where out: "out = (s', evs)" by (cases out)
  from myCallback_done[OF fin] out
  have s': "s' = (storage w0)\<lparr>decryptionContexts := (decryptionContexts (storage w0))
                 (rid := (decryptionContexts (storage w0) rid)\<lparr>processed := True\<rparr>)\<rparr>"
    by auto
  have w1: "w1 = \<lparr>storage = s', events = events w0 @ evs, issued = issued w0\<rparr>"
    using fin out by (simp add: w1_def transact_def)
  have c1: "decryptionContexts (storage w1) rid
              = (decryptionContexts (storage w0) rid)\<lparr>processed := True\<rparr>"
    by (simp add: w1 s')
  then have p1: "processed (decryptionContexts (storage w1) rid)" by simp
  have i1: "rid \<in> set (issued w1)" using iss by (simp add: w1)
  have a1: "admissible P w1 txs" using adm by (simp add: w1_def)
  note k = run_context_kept[OF a1 i1 p1]
  from k p1 have p2: "processed (decryptionContexts (storage w2) rid)"
    by (simp add: w2_def)
  have r: "myCallback P e (storage w2) rid c p = Inl ReplayAttempt"
    by (rule myCallback_processed[OF p2])
  then have t: "transact P w2 (e, MyCallback rid c p) = w2"
    by (simp add: transact_def)
  from c1 k r t show ?thesis
    unfolding Let_def w1_def [symmetric] w2_def [symmetric] by simp
qed

theorem replay_attempt_after_finalization_witness:
  "7 \<in> set (issued requested_world)
   \<and> admissible test_platform
       (transact test_platform requested_world (call_env 9 300 0, MyCallback 7 cleartext42 [1]))
       [(call_env 9 400 0, MyCallback 7 [] [1]),
        (call_env 1 500 8, RequestBatchSummaryDecryption 1),
        (call_env 9 600 0, MyCallback 8 cleartext42 [1])]
   \<and> myCallback test_platform (call_env 5 900 0)
        (storage (run test_platform
           (transact test_platform requested_world
              (call_env 9 300 0, MyCallback 7 cleartext42 [1]))
           [(call_env 9 400 0, MyCallback 7 [] [1]),
            (call_env 1 500 8, RequestBatchSummaryDecryption 1),
            (call_env 9 600 0, MyCallback 8 cleartext42 [1])]))
        7 cleartext42 [1] = Inl ReplayAttempt"
proof -
  have h1: "\<exists>out. myCallback test_platform (call_env 9 300 0) (storage requested_world)
              7 cleartext42 [1] = Inr out"
    by (simp add: myCallback_def requested_world_context run_defs Let_def)
  then obtain out where fin:
    "myCallback test_platform (call_env 9 300 0) (storage requested_world)
       7 cleartext42 [1] = Inr out" ..
  have h2: "7 \<in> set (issued requested_world)"
    by (simp add: requested_world_issued)
  have h3: "admissible test_platform
       (transact test_platform requested_world (call_env 9 300 0, MyCallback 7 cleartext42 [1]))
       [(call_env 9 400 0, MyCallback 7 [] [1]),
        (call_env 1 500 8, RequestBatchSummaryDecryption 1),
        (call_env 9 600 0, MyCallback 8 cleartext42 [1])]"
    by (simp add: requested_world_issued requested_world_context
        transact_def myCallback_def requestBatchSummaryDecryption_def
        onlyProvider_def whenNotPaused_def run_defs Let_def split: sum.splits)
  from replay_attempt_after_finalization[OF fin h2 h3, of "call_env 5 900 0" cleartext42 "[1]"]
  have "myCallback test_platform (call_env 5 900 0)
        (storage (run test_platform
           (transact test_platform requested_world
              (call_env 9 300 0, MyCallback 7 cleartext42 [1]))
           [(call_env 9 400 0, MyCallback 7 [] [1]),
            (call_env 1 500 8, RequestBatchSummaryDecryption 1),
            (call_env 9 600 0, MyCallback 8 cleartext42 [1])]))
        7 cleartext42 [1] = Inl ReplayAttempt"
    by (simp add: Let_def)
  with h2 h3 show ?thesis by simp
qed

subsection \<open>Request identifiers and their contexts\<close>

lemma request_hash:
  "keccak256 P (abi_encode (request_cts P) (this_address P)) = currentHash P"
  by (simp add: currentHash_def request_cts_def callback_cts_def)

lemma dispatch_contexts:
  assumes "dispatch P e s c = Inr (s', evs)"
  shows "case c of
           RequestBatchSummaryDecryption b \<Rightarrow>
             decryptionContexts s' = (decryptionContexts s)
               (oracle_requestId e := \<lparr>batchId = b, stateHash = currentHash P, processed = False\<rparr>)
         | MyCallback r cl pf \<Rightarrow>
             decryptionContexts s' = (decryptionContexts s)
               (r := (decryptionContexts s r)\<lparr>processed := True\<rparr>)
             \<and> currentHash P = stateHash (decryptionContexts s r)
         | _ \<Rightarrow> decryptionContexts s' = decryptionContexts s"
proof (cases c)
  case (RequestBatchSummaryDecryption b)
  with assms show ?thesis
    by (auto simp: requestBatchSummaryDecryption_def onlyProvider_def whenNotPaused_def
        request_hash Let_def split: if_splits sum.splits)
next
  case (MyCallback r cl pf)
  with assms myCallback_done[of P e s r cl pf "(s', evs)"] show ?thesis
    by auto
qed (use assms in \<open>auto simp: op_defs Let_def split: if_splits sum.splits\<close>)

lemma transact_issued_hash:
  assumes "\<forall>rid \<in> set (issued w). stateHash (decryptionContexts (storage w) rid) = currentHash P"
  shows "\<forall>rid \<in> set (issued (transact P w tx)).
           stateHash (decryptionContexts (storage (transact P w tx)) rid) = currentHash P"
proof (cases "dispatch P (fst tx) (storage w) (snd tx)")
  case (Inl err)
  then show ?thesis using assms by (simp add: transact_def)
next
  case (Inr out)
  obtain s' evs where out: "out = (s', evs)" by (cases out)
  from Inr out have d: "dispatch P (fst tx) (storage w) (snd tx) = Inr (s', evs)" by simp
  then have t: "transact P w tx =
      \<lparr>storage = s', events = events w @ evs, issued = issues (fst tx) (snd tx) @ issued w\<rparr>"
    by (simp add: transact_def)
  from dispatch_contexts[OF d] assms show ?thesis
    unfolding t by (cases "snd tx") auto
qed

lemma run_issued_hash:
  assumes "\<forall>rid \<in> set (issued w). stateHash (decryptionContexts (storage w) rid) = currentHash P"
  shows "\<forall>rid \<in> set (issued (run P w txs)).
           stateHash (decryptionContexts (storage (run P w txs)) rid) = currentHash P"
  using assms
proof (induction txs arbitrary: w)
  case Nil
  then show ?case by (simp add: run_Nil)
next
  case (Cons tx txs)
  from Cons.IH[OF transact_issued_hash[OF Cons.prems]] show ?case
    by (simp add: run_Cons)
qed

lemma transact_unissued_zero:
  assumes nz: "currentHash P \<noteq> 0"
    and inv: "\<forall>rid. rid \<notin> set (issued w) \<longrightarrow> decryptionContexts (storage w) rid = zero_context"
  shows "\<forall>rid. rid \<notin> set (issued (transact P w tx)) \<longrightarrow>
           decryptionContexts (storage (transact P w tx)) rid = zero_context"
proof (cases "dispatch P (fst tx) (storage w) (snd tx)")
  case (Inl err)
  then show ?thesis using inv by (simp add: transact_def)
next
  case (Inr out)
  obtain s' evs where out: "out = (s', evs)" by (cases out)
  from Inr out have d: "dispatch P (fst tx) (storage w) (snd tx) = Inr (s', evs)" by simp
  then have t: "transact P w tx =
      \<lparr>storage = s', events = events w @ evs, issued = issues (fst tx) (snd tx) @ issued w\<rparr>"
    by (simp add: transact_def)
  show ?thesis
  proof (cases "snd tx")
    case (MyCallback r cl pf)
    with dispatch_contexts[OF d]
    have upd: "decryptionContexts s' = (decryptionContexts (storage w))
                 (r := (decryptionContexts (storage w) r)\<lparr>processed := True\<rparr>)"
      and h: "currentHash P = stateHash (decryptionContexts (storage w) r)"
      by simp_all
    have "r \<in> set (issued w)"
    proof (rule ccontr)
      assume "r \<notin> set (issued w)"
      with inv have "decryptionContexts (storage w) r = zero_context" by simp
      with h nz show False by (simp add: zero_context_def)
    qed
    with inv upd MyCallback show ?thesis
      by (auto simp: t)
  qed (use dispatch_contexts[OF d] inv in \<open>auto simp: t\<close>)
qed

lemma run_unissued_zero:
  assumes nz: "currentHash P \<noteq> 0"
    and inv: "\<forall>rid. rid \<notin> set (issued w) \<longrightarrow> decryptionContexts (storage w) rid = zero_context"
  shows "\<forall>rid. rid \<notin> set (issued (run P w txs)) \<longrightarrow>
           decryptionContexts (storage (run P w txs)) rid = zero_context"
  using inv
proof (induction txs arbitrary: w)
  case Nil
  then show ?case by (simp add: run_Nil)
next
  case (Cons tx txs)
  from Cons.IH[OF transact_unissued_zero[OF nz Cons.prems]] show ?case
    by (simp add: run_Cons)
qed

lemma deploy_contexts: "decryptionContexts (storage (deploy e)) rid = zero_context"
  by (simp add: deploy_def constructor_def empty_storage_def Let_def)

lemma deploy_issued: "issued (deploy e) = []"
  by (simp add: deploy_def)

text \<open>
  Claim C2, as the code has it. The replay guard reads only the \<open>processed\<close> flag, and
  an identifier under which no request stored a context has the zero context, whose flag
  is false: the callback passes the guard and reverts at the fingerprint comparison with
  \<open>StateMismatch\<close>, the stored fingerprint being zero (the recomputed one taken to be
  non-zero).
\<close>

theorem callback_without_context:
  assumes "rid \<notin> set (issued (run P (deploy e0) txs))"
    and "currentHash P \<noteq> 0"
  shows "decryptionContexts (storage (run P (deploy e0) txs)) rid = zero_context
       \<and> myCallback P e (storage (run P (deploy e0) txs)) rid c p = Inl StateMismatch"
proof -
  have "\<forall>rid. rid \<notin> set (issued (deploy e0)) \<longrightarrow>
          decryptionContexts (storage (deploy e0)) rid = zero_context"
    by (simp add: deploy_contexts)
  from run_unissued_zero[OF assms(2) this, of txs] assms(1)
  have z: "decryptionContexts (storage (run P (deploy e0) txs)) rid = zero_context"
    by simp
  with assms(2) show ?thesis
    by (simp add: myCallback_def currentHash_def zero_context_def Let_def)
qed

theorem callback_without_context_witness:
  "8 \<notin> set (issued (run test_platform (deploy (call_env 1 0 0)) scenario))
   \<and> currentHash test_platform \<noteq> 0
   \<and> myCallback test_platform (call_env 9 300 0)
        (storage (run test_platform (deploy (call_env 1 0 0)) scenario)) 8 cleartext42 [1]
      = Inl StateMismatch"
proof -
  have h1: "8 \<notin> set (issued (run test_platform (deploy (call_env 1 0 0)) scenario))"
    using requested_world_issued by (simp add: requested_world_def)
  have h2: "currentHash test_platform \<noteq> 0"
    by (simp add: currentHash_def test_platform_def)
  from callback_without_context[OF h1 h2, of "call_env 9 300 0" cleartext42 "[1]"] h1 h2
  show ?thesis by simp
qed

text \<open>
  The claim as stated fails right after deployment: no request has been made, and the
  callback for identifier 7 reverts with \<open>StateMismatch\<close>, not with \<open>ReplayAttempt\<close>.
\<close>

theorem callback_without_context_counterexample:
  "decryptionContexts (storage (deploy (call_env 1 0 0))) 7 = zero_context
   \<and> issued (deploy (call_env 1 0 0)) = []
   \<and> myCallback test_platform (call_env 9 300 0) (storage (deploy (call_env 1 0 0)))
        7 cleartext42 [1] = Inl StateMismatch
   \<and> myCallback test_platform (call_env 9 300 0) (storage (deploy (call_env 1 0 0)))
        7 cleartext42 [1] \<noteq> Inl ReplayAttempt"
  by (simp add: myCallback_def deploy_contexts deploy_issued zero_context_def
      test_platform_def Let_def)

text \<open>
  Claim C3. The handle list built at request time and the one rebuilt in the callback
  are the same, a function of the platform alone; and in every state the contract can
  reach from deployment, each context stored by \<open>requestBatchSummaryDecryption\<close> holds
  the very fingerprint the callback recomputes, so the callback never reverts with
  \<open>StateMismatch\<close> for it.
\<close>

theorem fingerprint_rederived_at_callback:
  assumes "rid \<in> set (issued (run P (deploy e0) txs))"
  shows "callback_cts P = request_cts P
       \<and> stateHash (decryptionContexts (storage (run P (deploy e0) txs)) rid)
           = keccak256 P (abi_encode (callback_cts P) (this_address P))
       \<and> myCallback P e (storage (run P (deploy e0) txs)) rid c p \<noteq> Inl StateMismatch"
proof -
  have "\<forall>rid \<in> set (issued (deploy e0)).
          stateHash (decryptionContexts (storage (deploy e0)) rid) = currentHash P"
    by (simp add: deploy_issued)
  from run_issued_hash[OF this, of txs] assms
  have h: "stateHash (decryptionContexts (storage (run P (deploy e0) txs)) rid) = currentHash P"
    by simp
  have "callback_cts P = request_cts P"
    by (simp add: callback_cts_def request_cts_def)
  moreover from h
  have "myCallback P e (storage (run P (deploy e0) txs)) rid c p \<noteq> Inl StateMismatch"
    by (simp add: myCallback_def currentHash_def abi_decode_uint256_def Let_def)
  ultimately show ?thesis using h by (simp add: currentHash_def)
qed

theorem fingerprint_rederived_at_callback_witness:
  "7 \<in> set (issued (run test_platform (deploy (call_env 1 0 0)) scenario))
   \<and> stateHash (decryptionContexts
        (storage (run test_platform (deploy (call_env 1 0 0)) scenario)) 7) = 0x5A
   \<and> myCallback test_platform (call_env 9 300 0)
        (storage (run test_platform (deploy (call_env 1 0 0)) scenario)) 7 [] []
      \<noteq> Inl StateMismatch"
proof -
  have h: "7 \<in> set (issued (run test_platform (deploy (call_env 1 0 0)) scenario))"
    using requested_world_issued by (simp add: requested_world_def)
  from fingerprint_rederived_at_callback[OF h, of "call_env 9 300 0" "[]" "[]"] h
  show ?thesis by (simp add: test_platform_def)
qed

subsection \<open>The callback\<close>

lemma finalized_world_context:
  "decryptionContexts (storage finalized_world) 7 =
     \<lparr>batchId = 1, stateHash = 0x5A, processed = True\<rparr>"
  by (simp add: finalized_world_def transact_def myCallback_def requested_world_context
      run_defs Let_def)

lemma requested_world_other_context:
  "decryptionContexts (storage requested_world) 8 = zero_context"
  by (simp add: requested_world_def scenario_def run_defs op_defs Let_def)

lemma myCallback_cases:
  "myCallback P e s rid c p =
     (if processed (decryptionContexts s rid) then Inl ReplayAttempt
      else if currentHash P \<noteq> stateHash (decryptionContexts s rid) then Inl StateMismatch
      else if \<not> checkSignatures P rid c p then Inl DecryptionFailed
      else if length c < 32 then Inl DecodeRevert
      else Inr (s\<lparr>decryptionContexts := (decryptionContexts s)
                   (rid := (decryptionContexts s rid)\<lparr>processed := True\<rparr>)\<rparr>,
                [DecryptionCompleted rid (batchId (decryptionContexts s rid))
                   [foldl (\<lambda>acc b. push_bit 8 acc OR ucast b) 0 (take 32 c)]]))"
  by (simp add: myCallback_def currentHash_def abi_decode_uint256_def Let_def)

text \<open>
  Claim C4. The callback checks, in this order, the replay guard, the fingerprint and the
  proof. A call that reverts, at any of them, leaves the whole world as it was. A call
  that returns has passed all three, and differs from the state before only in the
  \<open>processed\<close> flag of the context, now true; it publishes the one completion
  notification.
\<close>

theorem callback_finalization_atomic:
  "(processed (decryptionContexts (storage w) rid) \<longrightarrow>
      myCallback P e (storage w) rid c p = Inl ReplayAttempt)
   \<and> (\<not> processed (decryptionContexts (storage w) rid)
        \<and> currentHash P \<noteq> stateHash (decryptionContexts (storage w) rid) \<longrightarrow>
      myCallback P e (storage w) rid c p = Inl StateMismatch)
   \<and> (\<not> processed (decryptionContexts (storage w) rid)
        \<and> currentHash P = stateHash (decryptionContexts (storage w) rid)
        \<and> \<not> checkSignatures P rid c p \<longrightarrow>
      myCallback P e (storage w) rid c p = Inl DecryptionFailed)
   \<and> (\<forall>err. myCallback P e (storage w) rid c p = Inl err \<longrightarrow>
        transact P w (e, MyCallback rid c p) = w)
   \<and> (\<forall>s' evs. myCallback P e (storage w) rid c p = Inr (s', evs) \<longrightarrow>
        \<not> processed (decryptionContexts (storage w) rid)
        \<and> currentHash P = stateHash (decryptionContexts (storage w) rid)
        \<and> checkSignatures P rid c p
        \<and> s' = (storage w)\<lparr>decryptionContexts := (decryptionContexts (storage w))
                   (rid := (decryptionContexts (storage w) rid)\<lparr>processed := True\<rparr>)\<rparr>
        \<and> (\<exists>v. abi_decode_uint256 c = Inr v
              \<and> evs = [DecryptionCompleted rid
                         (batchId (decryptionContexts (storage w) rid)) [v]])
        \<and> transact P w (e, MyCallback rid c p)
            = \<lparr>storage = s', events = events w @ evs, issued = issued w\<rparr>)"
proof -
  have a: "processed (decryptionContexts (storage w) rid) \<longrightarrow>
      myCallback P e (storage w) rid c p = Inl ReplayAttempt"
    by (simp add: myCallback_cases)
  have b: "\<not> processed (decryptionContexts (storage w) rid)
        \<and> currentHash P \<noteq> stateHash (decryptionContexts (storage w) rid) \<longrightarrow>
      myCallback P e (storage w) rid c p = Inl StateMismatch"
    by (simp add: myCallback_cases)
  have c: "\<not> processed (decryptionContexts (storage w) rid)
        \<and> currentHash P = stateHash (decryptionContexts (storage w) rid)
        \<and> \<not> checkSignatures P rid c p \<longrightarrow>
      myCallback P e (storage w) rid c p = Inl DecryptionFailed"
    by (simp add: myCallback_cases)
  have d: "\<forall>err. myCallback P e (storage w) rid c p = Inl err \<longrightarrow>
        transact P w (e, MyCallback rid c p) = w"
    by (simp add: transact_def)
  have f: "\<forall>s' evs. myCallback P e (storage w) rid c p = Inr (s', evs) \<longrightarrow>
        \<not> processed (decryptionContexts (storage w) rid)
        \<and> currentHash P = stateHash (decryptionContexts (storage w) rid)
        \<and> checkSignatures P rid c p
        \<and> s' = (storage w)\<lparr>decryptionContexts := (decryptionContexts (storage w))
                   (rid := (decryptionContexts (storage w) rid)\<lparr>processed := True\<rparr>)\<rparr>
        \<and> (\<exists>v. abi_decode_uint256 c = Inr v
              \<and> evs = [DecryptionCompleted rid
                         (batchId (decryptionContexts (storage w) rid)) [v]])
        \<and> transact P w (e, MyCallback rid c p)
            = \<lparr>storage = s', events = events w @ evs, issued = issued w\<rparr>"
  proof (intro allI impI)
    fix s' evs
    assume r: "myCallback P e (storage w) rid c p = Inr (s', evs)"
    from myCallback_done[OF r] transact_done[of P e w "MyCallback rid c p" s' evs] r
    show "\<not> processed (decryptionContexts (storage w) rid)
        \<and> currentHash P = stateHash (decryptionContexts (storage w) rid)
        \<and> checkSignatures P rid c p
        \<and> s' = (storage w)\<lparr>decryptionContexts := (decryptionContexts (storage w))
                   (rid := (decryptionContexts (storage w) rid)\<lparr>processed := True\<rparr>)\<rparr>
        \<and> (\<exists>v. abi_decode_uint256 c = Inr v
              \<and> evs = [DecryptionCompleted rid
                         (batchId (decryptionContexts (storage w) rid)) [v]])
        \<and> transact P w (e, MyCallback rid c p)
            = \<lparr>storage = s', events = events w @ evs, issued = issued w\<rparr>"
      by auto
  qed
  from a b c d f show ?thesis by blast
qed

theorem callback_finalization_atomic_witness:
  "transact test_platform finalized_world (call_env 9 400 0, MyCallback 7 cleartext42 [1])
     = finalized_world
   \<and> transact test_platform requested_world (call_env 9 400 0, MyCallback 8 cleartext42 [1])
     = requested_world
   \<and> transact test_platform requested_world (call_env 9 400 0, MyCallback 7 cleartext42 [0])
     = requested_world
   \<and> processed (decryptionContexts
        (storage (transact test_platform requested_world
           (call_env 9 400 0, MyCallback 7 cleartext42 [1]))) 7)"
proof -
  note A = callback_finalization_atomic
      [of finalized_world 7 test_platform "call_env 9 400 0" cleartext42 "[1]"]
  note B = callback_finalization_atomic
      [of requested_world 8 test_platform "call_env 9 400 0" cleartext42 "[1]"]
  note C = callback_finalization_atomic
      [of requested_world 7 test_platform "call_env 9 400 0" cleartext42 "[0]"]
  note D = callback_finalization_atomic
      [of requested_world 7 test_platform "call_env 9 400 0" cleartext42 "[1]"]
  have h: "currentHash test_platform = 0x5A"
    by (simp add: currentHash_def test_platform_def)
  have r1: "myCallback test_platform (call_env 9 400 0) (storage finalized_world)
              7 cleartext42 [1] = Inl ReplayAttempt"
    using A [THEN conjunct1] by (simp add: finalized_world_context)
  have r2: "myCallback test_platform (call_env 9 400 0) (storage requested_world)
              8 cleartext42 [1] = Inl StateMismatch"
    using B [THEN conjunct2, THEN conjunct1]
    by (simp add: requested_world_other_context zero_context_def h)
  have r3: "myCallback test_platform (call_env 9 400 0) (storage requested_world)
              7 cleartext42 [0] = Inl DecryptionFailed"
    using C [THEN conjunct2, THEN conjunct2, THEN conjunct1]
    by (simp add: requested_world_context h) (simp add: test_platform_def)
  have r4: "myCallback test_platform (call_env 9 400 0) (storage requested_world)
              7 cleartext42 [1]
            = Inr ((storage requested_world)\<lparr>decryptionContexts :=
                     (decryptionContexts (storage requested_world))
                       (7 := (decryptionContexts (storage requested_world) 7)
                          \<lparr>processed := True\<rparr>)\<rparr>,
                   [DecryptionCompleted 7 1
                      [foldl (\<lambda>acc b. push_bit 8 acc OR ucast b) 0 (take 32 cleartext42)]])"
    by (simp add: myCallback_cases requested_world_context h)
       (simp add: test_platform_def cleartext42_def)
  from r1 A [THEN conjunct2, THEN conjunct2, THEN conjunct2, THEN conjunct1]
  have t1: "transact test_platform finalized_world
              (call_env 9 400 0, MyCallback 7 cleartext42 [1]) = finalized_world"
    by blast
  from r2 B [THEN conjunct2, THEN conjunct2, THEN conjunct2, THEN conjunct1]
  have t2: "transact test_platform requested_world
              (call_env 9 400 0, MyCallback 8 cleartext42 [1]) = requested_world"
    by blast
  from r3 C [THEN conjunct2, THEN conjunct2, THEN conjunct2, THEN conjunct1]
  have t3: "transact test_platform requested_world
              (call_env 9 400 0, MyCallback 7 cleartext42 [0]) = requested_world"
    by blast
  from D [THEN conjunct2, THEN conjunct2, THEN conjunct2, THEN conjunct2,
          THEN spec, THEN spec, THEN mp, OF r4]
  have "transact test_platform requested_world
           (call_env 9 400 0, MyCallback 7 cleartext42 [1])
         = \<lparr>storage = (storage requested_world)\<lparr>decryptionContexts :=
                     (decryptionContexts (storage requested_world))
                       (7 := (decryptionContexts (storage requested_world) 7)
                          \<lparr>processed := True\<rparr>)\<rparr>,
            events = events requested_world @ [DecryptionCompleted 7 1
                      [foldl (\<lambda>acc b. push_bit 8 acc OR ucast b) 0 (take 32 cleartext42)]],
            issued = issued requested_world\<rparr>"
    by blast
  then have t4: "processed (decryptionContexts
        (storage (transact test_platform requested_world
           (call_env 9 400 0, MyCallback 7 cleartext42 [1]))) 7)"
    by simp
  from t1 t2 t3 t4 show ?thesis by blast
qed

text \<open>
  Claim C10. The callback does not look at its caller: two callers in the same state with
  the same identifier, cleartext and proof get the same outcome and leave the same world.
  Whether the call returns is decided by the stored context, the recomputed fingerprint,
  the proof check and the length of the cleartext alone.
\<close>

theorem callback_ignores_caller:
  "myCallback P (e\<lparr>msg_sender := a\<rparr>) (storage w) rid c p
     = myCallback P (e\<lparr>msg_sender := b\<rparr>) (storage w) rid c p
   \<and> transact P w (e\<lparr>msg_sender := a\<rparr>, MyCallback rid c p)
     = transact P w (e\<lparr>msg_sender := b\<rparr>, MyCallback rid c p)
   \<and> ((\<exists>out. myCallback P (e\<lparr>msg_sender := a\<rparr>) (storage w) rid c p = Inr out)
      = (\<not> processed (decryptionContexts (storage w) rid)
         \<and> currentHash P = stateHash (decryptionContexts (storage w) rid)
         \<and> checkSignatures P rid c p
         \<and> 32 \<le> length c))"
  by (simp add: myCallback_cases transact_def)

theorem callback_ignores_caller_witness:
  "myCallback test_platform (call_env 9 300 0) (storage requested_world) 7 cleartext42 [1]
     = myCallback test_platform (call_env 1 300 0) (storage requested_world) 7 cleartext42 [1]"
  using callback_ignores_caller
    [where P = test_platform and e = "call_env 0 300 0" and a = 9 and b = 1
       and w = requested_world and rid = 7 and c = cleartext42 and p = "[1]"]
  by (simp add: call_env_def)

subsection \<open>Administration and the pause\<close>

lemma deploy_storage:
  "storage (deploy e) =
     \<lparr>owner = msg_sender e, isProvider = (\<lambda>_. False)(msg_sender e := True), paused = False,
      cooldownSeconds = 60, lastSubmissionTime = (\<lambda>_. 0),
      lastDecryptionRequestTime = (\<lambda>_. 0), currentBatchId = 0,
      isBatchClosed = (\<lambda>_. False), decryptionContexts = (\<lambda>_. zero_context)\<rparr>"
  by (simp add: deploy_def constructor_def empty_storage_def Let_def)

lemma paused_world_storage:
  "storage paused_world = (storage (deploy (call_env 1 0 0)))\<lparr>paused := True\<rparr>"
  by (simp add: paused_world_def run_def transact_def setPaused_def onlyOwner_def
      deploy_storage call_env_def)

text \<open>
  Claim C9. For the owner, adding a provider that is one already and removing one that
  is none return the state as it is and publish nothing. So two \<open>addProvider(p)\<close> calls
  in a row, for a \<open>p\<close> that is not yet a provider, publish exactly one
  \<open>ProviderAdded(p)\<close> between them, the second call being silent, and
  \<open>isProvider[p]\<close> is true after both.
\<close>

theorem addProvider_removeProvider_idempotent:
  assumes "msg_sender e = owner s" and "msg_sender e' = owner s"
  shows "(isProvider s p \<longrightarrow> addProvider e s p = Inr (s, []))
       \<and> (\<not> isProvider s p \<longrightarrow> removeProvider e s p = Inr (s, []))
       \<and> (\<exists>s1 evs1. addProvider e s p = Inr (s1, evs1)
             \<and> evs1 = (if isProvider s p then [] else [ProviderAdded p])
             \<and> isProvider s1 p
             \<and> addProvider e' s1 p = Inr (s1, []))
       \<and> (\<exists>s1 evs1. removeProvider e s p = Inr (s1, evs1)
             \<and> evs1 = (if isProvider s p then [ProviderRemoved p] else [])
             \<and> \<not> isProvider s1 p
             \<and> removeProvider e' s1 p = Inr (s1, []))
       \<and> (\<not> isProvider s p \<longrightarrow>
            (\<exists>s1 evs1 s2 evs2. addProvider e s p = Inr (s1, evs1)
               \<and> addProvider e' s1 p = Inr (s2, evs2)
               \<and> evs1 @ evs2 = [ProviderAdded p]
               \<and> evs2 = []
               \<and> s2 = s1
               \<and> isProvider s2 p))"
  using assms by (simp add: addProvider_def removeProvider_def onlyOwner_def)

theorem addProvider_removeProvider_idempotent_witness:
  "msg_sender (call_env 1 10 0) = owner (storage (deploy (call_env 1 0 0)))
   \<and> msg_sender (call_env 1 20 0) = owner (storage (deploy (call_env 1 0 0)))
   \<and> \<not> isProvider (storage (deploy (call_env 1 0 0))) 5
   \<and> (\<exists>s1 evs1 s2 evs2.
          addProvider (call_env 1 10 0) (storage (deploy (call_env 1 0 0))) 5 = Inr (s1, evs1)
        \<and> addProvider (call_env 1 20 0) s1 5 = Inr (s2, evs2)
        \<and> evs1 @ evs2 = [ProviderAdded 5]
        \<and> evs2 = []
        \<and> s2 = s1
        \<and> isProvider s2 5)"
proof -
  have h1: "msg_sender (call_env 1 10 0) = owner (storage (deploy (call_env 1 0 0)))"
    and h2: "msg_sender (call_env 1 20 0) = owner (storage (deploy (call_env 1 0 0)))"
    and h3: "\<not> isProvider (storage (deploy (call_env 1 0 0))) 5"
    by (simp_all add: deploy_storage call_env_def)
  note T = addProvider_removeProvider_idempotent[OF h1 h2, of 5]
  from T [THEN conjunct2, THEN conjunct2, THEN conjunct2, THEN conjunct2, THEN mp, OF h3]
  have "\<exists>s1 evs1 s2 evs2.
          addProvider (call_env 1 10 0) (storage (deploy (call_env 1 0 0))) 5 = Inr (s1, evs1)
        \<and> addProvider (call_env 1 20 0) s1 5 = Inr (s2, evs2)
        \<and> evs1 @ evs2 = [ProviderAdded 5]
        \<and> evs2 = []
        \<and> s2 = s1
        \<and> isProvider s2 5" .
  with h1 h2 h3 show ?thesis by blast
qed

text \<open>
  Claim C8, as the code has it. Each of the four operations runs its role check before
  the pause check. While the contract is paused, \<open>openBatch\<close> and \<open>closeBatch\<close>
  revert with \<open>Paused\<close> for the owner and with \<open>NotOwner\<close> for anyone else;
  \<open>submitEncryptedData\<close> and \<open>requestBatchSummaryDecryption\<close> revert with \<open>Paused\<close>
  for a provider and with \<open>NotProvider\<close> for anyone else. The five administrative
  operations return for the owner as they do when the contract is not paused.
\<close>

theorem paused_blocks_operations:
  assumes "paused s"
  shows "openBatch e s = (if msg_sender e = owner s then Inl Paused else Inl NotOwner)
       \<and> closeBatch e s b = (if msg_sender e = owner s then Inl Paused else Inl NotOwner)
       \<and> submitEncryptedData e s b d
           = (if isProvider s (msg_sender e) then Inl Paused else Inl NotProvider)
       \<and> requestBatchSummaryDecryption P e s b
           = (if isProvider s (msg_sender e) then Inl Paused else Inl NotProvider)
       \<and> (msg_sender e = owner s \<longrightarrow>
             transferOwnership e s a = Inr (s\<lparr>owner := a\<rparr>, [OwnershipTransferred (owner s) a])
           \<and> addProvider e s a
               = (if isProvider s a then Inr (s, [])
                  else Inr (s\<lparr>isProvider := (isProvider s)(a := True)\<rparr>, [ProviderAdded a]))
           \<and> removeProvider e s a
               = (if isProvider s a
                  then Inr (s\<lparr>isProvider := (isProvider s)(a := False)\<rparr>, [ProviderRemoved a])
                  else Inr (s, []))
           \<and> setPaused e s q = Inr (s\<lparr>paused := q\<rparr>, [PauseToggled q])
           \<and> setCooldown e s n = Inr (s\<lparr>cooldownSeconds := n\<rparr>, [CooldownSet n]))"
  using assms by (simp add: op_defs Let_def)

theorem paused_blocks_operations_witness:
  "paused (storage paused_world)
   \<and> submitEncryptedData (call_env 1 100 0) (storage paused_world) 0 0xAB = Inl Paused
   \<and> requestBatchSummaryDecryption test_platform (call_env 1 100 7) (storage paused_world) 0
       = Inl Paused
   \<and> openBatch (call_env 1 100 0) (storage paused_world) = Inl Paused
   \<and> closeBatch (call_env 1 100 0) (storage paused_world) 0 = Inl Paused
   \<and> addProvider (call_env 1 100 0) (storage paused_world) 5
       = Inr ((storage paused_world)\<lparr>isProvider :=
                (isProvider (storage paused_world))(5 := True)\<rparr>, [ProviderAdded 5])"
proof -
  have h: "paused (storage paused_world)"
    by (simp add: paused_world_storage)
  have o: "msg_sender (call_env 1 100 0) = owner (storage paused_world)"
    and o': "msg_sender (call_env 1 100 7) = owner (storage paused_world)"
    and p: "isProvider (storage paused_world) (msg_sender (call_env 1 100 0))"
    and p': "isProvider (storage paused_world) (msg_sender (call_env 1 100 7))"
    and n: "\<not> isProvider (storage paused_world) 5"
    by (simp_all add: paused_world_storage deploy_storage call_env_def)
  from paused_blocks_operations
    [OF h, of "call_env 1 100 0" 0 "0xAB" test_platform 5] o p n
  have a: "submitEncryptedData (call_env 1 100 0) (storage paused_world) 0 0xAB = Inl Paused
     \<and> openBatch (call_env 1 100 0) (storage paused_world) = Inl Paused
     \<and> closeBatch (call_env 1 100 0) (storage paused_world) 0 = Inl Paused
     \<and> addProvider (call_env 1 100 0) (storage paused_world) 5
       = Inr ((storage paused_world)\<lparr>isProvider :=
                (isProvider (storage paused_world))(5 := True)\<rparr>, [ProviderAdded 5])"
    by simp
  from paused_blocks_operations
    [OF h, of "call_env 1 100 7" 0 "0xAB" test_platform 5] p'
  have b: "requestBatchSummaryDecryption test_platform (call_env 1 100 7)
             (storage paused_world) 0 = Inl Paused"
    by simp
  from h a b show ?thesis by blast
qed

text \<open>
  The claim as stated fails for a caller without the role: paused or not, address 5, no
  provider and not the owner, gets \<open>NotProvider\<close> from a submission and \<open>NotOwner\<close>
  from \<open>openBatch\<close>.
\<close>

theorem paused_call_counterexample:
  "paused (storage paused_world)
   \<and> submitEncryptedData (call_env 5 100 0) (storage paused_world) 0 0xAB = Inl NotProvider
   \<and> openBatch (call_env 5 100 0) (storage paused_world) = Inl NotOwner"
  by (simp add: paused_world_storage deploy_storage call_env_def submitEncryptedData_def
      openBatch_def onlyProvider_def onlyOwner_def)

subsection \<open>Batches\<close>

lemma checked_add_one:
  assumes "checked_add x 1 = Inr n"
  shows "x < n"
proof -
  from assms have lt: "unat x + unat (1 :: uint256) < 2 ^ 256" and n: "n = x + 1"
    by (auto simp: checked_add_def split: if_splits)
  from lt have "unat (x + 1) = unat x + unat (1 :: uint256)"
    using unat_add_lem[of x 1] by simp
  then show ?thesis
    by (simp add: n word_less_nat_alt)
qed

lemma dispatch_closed:
  assumes d: "dispatch P e s c = Inr (s', evs)"
    and inv: "\<forall>b. isBatchClosed s b \<longrightarrow> b \<le> currentBatchId s"
  shows "(\<forall>b. isBatchClosed s' b \<longrightarrow> b \<le> currentBatchId s')
       \<and> (\<forall>b. isBatchClosed s b \<longrightarrow> isBatchClosed s' b)"
proof (cases c)
  case OpenBatch
  with d obtain n where n: "checked_add (currentBatchId s) 1 = Inr n"
    and s': "s' = s\<lparr>currentBatchId := n, isBatchClosed := (isBatchClosed s)(n := False)\<rparr>"
    by (auto simp: openBatch_def onlyOwner_def whenNotPaused_def Let_def
        split: if_splits sum.splits)
  from checked_add_one[OF n] have lt: "currentBatchId s < n" .
  show ?thesis
  proof (intro conjI allI impI)
    fix b assume "isBatchClosed s' b"
    then have "isBatchClosed s b" by (simp add: s' split: if_splits)
    with inv have "b \<le> currentBatchId s" by simp
    with lt show "b \<le> currentBatchId s'" by (simp add: s')
  next
    fix b assume c: "isBatchClosed s b"
    with inv have "b \<le> currentBatchId s" by simp
    with lt have "b \<noteq> n" by auto
    with c show "isBatchClosed s' b" by (simp add: s')
  qed
next
  case (CloseBatch b)
  with d inv show ?thesis
    by (auto simp: closeBatch_def onlyOwner_def whenNotPaused_def split: if_splits)
qed (use d inv in \<open>auto simp: op_defs Let_def split: if_splits sum.splits\<close>)

lemma transact_closed:
  assumes inv: "\<forall>b. isBatchClosed (storage w) b \<longrightarrow> b \<le> currentBatchId (storage w)"
  shows "(\<forall>b. isBatchClosed (storage (transact P w tx)) b
              \<longrightarrow> b \<le> currentBatchId (storage (transact P w tx)))
       \<and> (\<forall>b. isBatchClosed (storage w) b \<longrightarrow> isBatchClosed (storage (transact P w tx)) b)"
proof (cases "dispatch P (fst tx) (storage w) (snd tx)")
  case (Inl err)
  then show ?thesis using inv by (simp add: transact_def)
next
  case (Inr out)
  obtain s' evs where out: "out = (s', evs)" by (cases out)
  from Inr out have d: "dispatch P (fst tx) (storage w) (snd tx) = Inr (s', evs)" by simp
  then have t: "storage (transact P w tx) = s'"
    by (simp add: transact_def)
  from dispatch_closed[OF d inv] show ?thesis
    by (simp add: t)
qed

lemma run_closed:
  assumes inv: "\<forall>b. isBatchClosed (storage w) b \<longrightarrow> b \<le> currentBatchId (storage w)"
  shows "(\<forall>b. isBatchClosed (storage (run P w txs)) b
              \<longrightarrow> b \<le> currentBatchId (storage (run P w txs)))
       \<and> (\<forall>b. isBatchClosed (storage w) b \<longrightarrow> isBatchClosed (storage (run P w txs)) b)"
  using inv
proof (induction txs arbitrary: w)
  case Nil
  then show ?case by (simp add: run_Nil)
next
  case (Cons tx txs)
  note t = transact_closed[OF Cons.prems, of P tx]
  from Cons.IH[OF t [THEN conjunct1]] t show ?case
    by (simp add: run_Cons)
qed

lemma deploy_closed:
  "\<forall>b. isBatchClosed (storage (deploy e)) b \<longrightarrow> b \<le> currentBatchId (storage (deploy e))"
  by (simp add: deploy_storage)

text \<open>
  Claim C6. A batch that is closed in a state the contract has reached from deployment is
  closed in every state reached from there, whatever transactions follow: \<open>openBatch\<close>
  clears the flag of the incremented identifier only, which lies above every closed one,
  and the checked increment cannot wrap around.
\<close>

theorem closed_batch_never_reopens:
  assumes "isBatchClosed (storage (run P (deploy e0) txs)) b"
  shows "isBatchClosed (storage (run P (deploy e0) (txs @ txs'))) b"
proof -
  have "\<forall>b. isBatchClosed (storage (run P (deploy e0) txs)) b
          \<longrightarrow> b \<le> currentBatchId (storage (run P (deploy e0) txs))"
    using run_closed[OF deploy_closed, of P e0 txs] by simp
  from run_closed[OF this, of P txs'] assms show ?thesis
    by (simp add: run_append)
qed

theorem closed_batch_never_reopens_witness:
  "isBatchClosed (storage (run test_platform (deploy (call_env 1 0 0)) scenario)) 1
   \<and> isBatchClosed (storage (run test_platform (deploy (call_env 1 0 0))
        (scenario @ [(call_env 1 300 0, OpenBatch), (call_env 1 310 0, CloseBatch 1),
                     (call_env 1 320 0, OpenBatch)]))) 1"
proof -
  have h: "isBatchClosed (storage (run test_platform (deploy (call_env 1 0 0)) scenario)) 1"
    by (simp add: scenario_def run_defs op_defs Let_def)
  from closed_batch_never_reopens[OF h] h show ?thesis by blast
qed

text \<open>
  Claim C5, as the code has it. A submission is checked against the closed flag of its
  batch and nothing else. From an authorized, un-throttled provider, while the contract is
  not paused, it reverts with \<open>InvalidBatch\<close> exactly when the flag of the batch is set,
  and is accepted otherwise; an identifier above the current one has never been closed,
  so a submission for it is accepted.
\<close>

theorem submission_batch_gate:
  assumes "isProvider (storage (run P (deploy e0) txs)) (msg_sender e)"
    and "\<not> paused (storage (run P (deploy e0) txs))"
    and "unat (lastSubmissionTime (storage (run P (deploy e0) txs)) (msg_sender e))
           + unat (cooldownSeconds (storage (run P (deploy e0) txs)))
         \<le> unat (block_timestamp e)"
  shows "(let s = storage (run P (deploy e0) txs) in
           ((submitEncryptedData e s b d = Inl InvalidBatch) = isBatchClosed s b)
         \<and> (\<not> isBatchClosed s b \<longrightarrow>
              submitEncryptedData e s b d
                = Inr (s\<lparr>lastSubmissionTime :=
                          (lastSubmissionTime s)(msg_sender e := block_timestamp e)\<rparr>,
                       [EncryptedDataSubmitted (msg_sender e) b d]))
         \<and> (currentBatchId s < b \<longrightarrow> \<not> isBatchClosed s b))"
proof -
  define s where "s = storage (run P (deploy e0) txs)"
  have bound: "unat (block_timestamp e) < 2 ^ 256"
    using unsigned_less[of "block_timestamp e"] by simp
  with assms(3) have no: "unat (lastSubmissionTime s (msg_sender e))
      + unat (cooldownSeconds s) < 2 ^ 256"
    by (simp add: s_def)
  then have sum: "unat (lastSubmissionTime s (msg_sender e) + cooldownSeconds s)
      = unat (lastSubmissionTime s (msg_sender e)) + unat (cooldownSeconds s)"
    using unat_add_lem[of "lastSubmissionTime s (msg_sender e)" "cooldownSeconds s"] by simp
  with assms(3) have ge: "\<not> block_timestamp e
      < lastSubmissionTime s (msg_sender e) + cooldownSeconds s"
    by (simp add: s_def word_less_nat_alt)
  have r: "submitEncryptedData e s b d =
      (if isBatchClosed s b then Inl InvalidBatch
       else Inr (s\<lparr>lastSubmissionTime :=
                   (lastSubmissionTime s)(msg_sender e := block_timestamp e)\<rparr>,
                 [EncryptedDataSubmitted (msg_sender e) b d]))"
    using assms(1,2) no ge
    by (simp add: submitEncryptedData_def onlyProvider_def whenNotPaused_def
        checked_add_def s_def)
  have "\<forall>b. isBatchClosed s b \<longrightarrow> b \<le> currentBatchId s"
    using run_closed[OF deploy_closed, of P e0 txs] by (simp add: s_def)
  then have "currentBatchId s < b \<longrightarrow> \<not> isBatchClosed s b"
    by auto
  with r show ?thesis
    unfolding Let_def s_def [symmetric] by simp
qed

theorem submission_batch_gate_witness:
  "isProvider (storage (run test_platform (deploy (call_env 1 0 0)) scenario))
     (msg_sender (call_env 1 200 0))
   \<and> \<not> paused (storage (run test_platform (deploy (call_env 1 0 0)) scenario))
   \<and> currentBatchId (storage (run test_platform (deploy (call_env 1 0 0)) scenario)) = 1
   \<and> submitEncryptedData (call_env 1 200 0)
        (storage (run test_platform (deploy (call_env 1 0 0)) scenario)) 999 0xAB
      \<noteq> Inl InvalidBatch
   \<and> submitEncryptedData (call_env 1 200 0)
        (storage (run test_platform (deploy (call_env 1 0 0)) scenario)) 1 0xAB
      = Inl InvalidBatch"
proof -
  have h1: "isProvider (storage (run test_platform (deploy (call_env 1 0 0)) scenario))
              (msg_sender (call_env 1 200 0))"
    and h2: "\<not> paused (storage (run test_platform (deploy (call_env 1 0 0)) scenario))"
    and h3: "unat (lastSubmissionTime
                (storage (run test_platform (deploy (call_env 1 0 0)) scenario))
                (msg_sender (call_env 1 200 0)))
           + unat (cooldownSeconds
                (storage (run test_platform (deploy (call_env 1 0 0)) scenario)))
         \<le> unat (block_timestamp (call_env 1 200 0))"
    and h4: "currentBatchId (storage (run test_platform (deploy (call_env 1 0 0)) scenario)) = 1"
    and h5: "isBatchClosed (storage (run test_platform (deploy (call_env 1 0 0)) scenario)) 1"
    by (simp_all add: scenario_def run_defs op_defs Let_def)
  from submission_batch_gate[OF h1 h2 h3, of 999 "0xAB"] h4
  have a: "submitEncryptedData (call_env 1 200 0)
        (storage (run test_platform (deploy (call_env 1 0 0)) scenario)) 999 0xAB
      \<noteq> Inl InvalidBatch"
    unfolding Let_def by simp
  from submission_batch_gate[OF h1 h2 h3, of 1 "0xAB"] h5
  have b: "submitEncryptedData (call_env 1 200 0)
        (storage (run test_platform (deploy (call_env 1 0 0)) scenario)) 1 0xAB
      = Inl InvalidBatch"
    unfolding Let_def by blast
  from h1 h2 h4 a b show ?thesis by blast
qed

text \<open>
  The claim as stated fails right after deployment, when the current batch identifier is
  still 0: the owner, a provider, submits for batch 999 at time 100, past the default
  cooldown of 60, and the call is accepted.
\<close>

theorem submission_unopened_batch_counterexample:
  "currentBatchId (storage (deploy (call_env 1 0 0))) = 0
   \<and> submitEncryptedData (call_env 1 100 0) (storage (deploy (call_env 1 0 0))) 999 0xAB
     = Inr ((storage (deploy (call_env 1 0 0)))\<lparr>lastSubmissionTime := (\<lambda>_. 0)(1 := 100)\<rparr>,
            [EncryptedDataSubmitted 1 999 0xAB])"
  by (simp add: submitEncryptedData_def onlyProvider_def whenNotPaused_def checked_add_def
      deploy_storage call_env_def)

subsection \<open>The throttle\<close>

lemma checked_add_fits:
  assumes "unat a + unat b < 2 ^ 256"
  shows "checked_add a b = Inr (a + b)" and "unat (a + b) = unat a + unat b"
proof -
  show "checked_add a b = Inr (a + b)"
    using assms by (simp add: checked_add_def)
  show "unat (a + b) = unat a + unat b"
    using assms unat_add_lem[of a b] by simp
qed

lemma checked_add_overflows:
  "2 ^ 256 \<le> unat a + unat b \<Longrightarrow> checked_add a b = Inl ArithmeticPanic"
  by (simp add: checked_add_def)

lemma submit_throttled:
  assumes "isProvider s (msg_sender e)" and "\<not> paused s"
    and "unat (lastSubmissionTime s (msg_sender e)) + unat (cooldownSeconds s) < 2 ^ 256"
  shows "submitEncryptedData e s b d =
           (if unat (block_timestamp e)
                 < unat (lastSubmissionTime s (msg_sender e)) + unat (cooldownSeconds s)
            then Inl CooldownActive
            else if isBatchClosed s b then Inl InvalidBatch
            else Inr (s\<lparr>lastSubmissionTime :=
                        (lastSubmissionTime s)(msg_sender e := block_timestamp e)\<rparr>,
                      [EncryptedDataSubmitted (msg_sender e) b d]))"
  using assms(1,2) checked_add_fits[OF assms(3)]
  by (simp add: submitEncryptedData_def onlyProvider_def whenNotPaused_def word_less_nat_alt)

lemma request_throttled:
  assumes "isProvider s (msg_sender e)" and "\<not> paused s"
    and "unat (lastDecryptionRequestTime s (msg_sender e)) + unat (cooldownSeconds s) < 2 ^ 256"
  shows "requestBatchSummaryDecryption P e s b =
           (if unat (block_timestamp e)
                 < unat (lastDecryptionRequestTime s (msg_sender e)) + unat (cooldownSeconds s)
            then Inl CooldownActive
            else if \<not> isBatchClosed s b then Inl InvalidBatch
            else Inr (s\<lparr>lastDecryptionRequestTime :=
                          (lastDecryptionRequestTime s)(msg_sender e := block_timestamp e),
                        decryptionContexts := (decryptionContexts s)
                          (oracle_requestId e :=
                             \<lparr>batchId = b, stateHash = currentHash P, processed = False\<rparr>)\<rparr>,
                      [DecryptionRequested (oracle_requestId e) b]))"
  using assms(1,2) checked_add_fits[OF assms(3)]
  by (simp add: requestBatchSummaryDecryption_def onlyProvider_def whenNotPaused_def
      word_less_nat_alt request_hash Let_def)

lemma submit_overflow:
  assumes "isProvider s (msg_sender e)" and "\<not> paused s"
    and "2 ^ 256 \<le> unat (lastSubmissionTime s (msg_sender e)) + unat (cooldownSeconds s)"
  shows "submitEncryptedData e s b d = Inl ArithmeticPanic"
  using assms(1,2) checked_add_overflows[OF assms(3)]
  by (simp add: submitEncryptedData_def onlyProvider_def whenNotPaused_def)

lemma request_overflow:
  assumes "isProvider s (msg_sender e)" and "\<not> paused s"
    and "2 ^ 256 \<le> unat (lastDecryptionRequestTime s (msg_sender e)) + unat (cooldownSeconds s)"
  shows "requestBatchSummaryDecryption P e s b = Inl ArithmeticPanic"
  using assms(1,2) checked_add_overflows[OF assms(3)]
  by (simp add: requestBatchSummaryDecryption_def onlyProvider_def whenNotPaused_def)

lemma submit_again:
  assumes first: "submitEncryptedData e s b d = Inr (s1, evs1)"
    and same: "msg_sender e2 = msg_sender e"
    and fits: "unat (block_timestamp e) + unat (cooldownSeconds s) < 2 ^ 256"
  shows "(unat (block_timestamp e2) < unat (block_timestamp e) + unat (cooldownSeconds s)
            \<longrightarrow> submitEncryptedData e2 s1 b2 d2 = Inl CooldownActive)
       \<and> (unat (block_timestamp e) + unat (cooldownSeconds s) \<le> unat (block_timestamp e2)
            \<and> \<not> isBatchClosed s b2
            \<longrightarrow> (\<exists>out. submitEncryptedData e2 s1 b2 d2 = Inr out))"
proof -
  from first have prov: "isProvider s (msg_sender e)" and np: "\<not> paused s"
    and s1: "s1 = s\<lparr>lastSubmissionTime :=
                    (lastSubmissionTime s)(msg_sender e := block_timestamp e)\<rparr>"
    by (auto simp: submitEncryptedData_def onlyProvider_def whenNotPaused_def
        split: if_splits sum.splits)
  have prov1: "isProvider s1 (msg_sender e2)" and np1: "\<not> paused s1"
    and fits1: "unat (lastSubmissionTime s1 (msg_sender e2)) + unat (cooldownSeconds s1)
                  < 2 ^ 256"
    using prov np fits by (simp_all add: s1 same)
  show ?thesis
    by (simp add: submit_throttled[OF prov1 np1 fits1]) (simp add: s1 same)
qed

text \<open>
  Claim C7, as the code has it. For a provider's call while the contract is not paused,
  and as long as the last accepted time plus the cooldown fits in 256 bits, the call
  reverts with \<open>CooldownActive\<close> exactly when the current time is below that sum; past the
  throttle the batch check follows, and a call that passes it too returns with the last
  accepted time of the caller set to the current time. So after an accepted submission a
  second one from the same provider reverts with \<open>CooldownActive\<close> inside the window and
  is accepted from its end on, for a batch that is not closed. When the sum does not fit
  in 256 bits, the checked addition reverts the call with an arithmetic panic.
\<close>

theorem throttle_check:
  assumes "isProvider s (msg_sender e)" and "\<not> paused s"
  shows "(unat (lastSubmissionTime s (msg_sender e)) + unat (cooldownSeconds s) < 2 ^ 256 \<longrightarrow>
            ((submitEncryptedData e s b d = Inl CooldownActive)
               = (unat (block_timestamp e)
                    < unat (lastSubmissionTime s (msg_sender e)) + unat (cooldownSeconds s)))
          \<and> (unat (lastSubmissionTime s (msg_sender e)) + unat (cooldownSeconds s)
                \<le> unat (block_timestamp e) \<and> \<not> isBatchClosed s b \<longrightarrow>
              submitEncryptedData e s b d
                = Inr (s\<lparr>lastSubmissionTime :=
                          (lastSubmissionTime s)(msg_sender e := block_timestamp e)\<rparr>,
                       [EncryptedDataSubmitted (msg_sender e) b d])))
       \<and> (2 ^ 256 \<le> unat (lastSubmissionTime s (msg_sender e)) + unat (cooldownSeconds s) \<longrightarrow>
            submitEncryptedData e s b d = Inl ArithmeticPanic)
       \<and> (unat (lastDecryptionRequestTime s (msg_sender e)) + unat (cooldownSeconds s) < 2 ^ 256
            \<longrightarrow>
            ((requestBatchSummaryDecryption P e s b = Inl CooldownActive)
               = (unat (block_timestamp e)
                    < unat (lastDecryptionRequestTime s (msg_sender e))
                      + unat (cooldownSeconds s)))
          \<and> (unat (lastDecryptionRequestTime s (msg_sender e)) + unat (cooldownSeconds s)
                \<le> unat (block_timestamp e) \<and> isBatchClosed s b \<longrightarrow>
              (\<exists>s' evs. requestBatchSummaryDecryption P e s b = Inr (s', evs)
                 \<and> lastDecryptionRequestTime s'
                     = (lastDecryptionRequestTime s)(msg_sender e := block_timestamp e))))
       \<and> (2 ^ 256 \<le> unat (lastDecryptionRequestTime s (msg_sender e))
                        + unat (cooldownSeconds s) \<longrightarrow>
            requestBatchSummaryDecryption P e s b = Inl ArithmeticPanic)
       \<and> (\<forall>s1 evs1 e2 b2 d2.
            submitEncryptedData e s b d = Inr (s1, evs1) \<and> msg_sender e2 = msg_sender e
            \<and> unat (block_timestamp e) + unat (cooldownSeconds s) < 2 ^ 256 \<longrightarrow>
              (unat (block_timestamp e2) < unat (block_timestamp e) + unat (cooldownSeconds s)
                 \<longrightarrow> submitEncryptedData e2 s1 b2 d2 = Inl CooldownActive)
            \<and> (unat (block_timestamp e) + unat (cooldownSeconds s) \<le> unat (block_timestamp e2)
                 \<and> \<not> isBatchClosed s b2
                 \<longrightarrow> (\<exists>out. submitEncryptedData e2 s1 b2 d2 = Inr out)))"
proof -
  have a: "unat (lastSubmissionTime s (msg_sender e)) + unat (cooldownSeconds s) < 2 ^ 256 \<longrightarrow>
            ((submitEncryptedData e s b d = Inl CooldownActive)
               = (unat (block_timestamp e)
                    < unat (lastSubmissionTime s (msg_sender e)) + unat (cooldownSeconds s)))
          \<and> (unat (lastSubmissionTime s (msg_sender e)) + unat (cooldownSeconds s)
                \<le> unat (block_timestamp e) \<and> \<not> isBatchClosed s b \<longrightarrow>
              submitEncryptedData e s b d
                = Inr (s\<lparr>lastSubmissionTime :=
                          (lastSubmissionTime s)(msg_sender e := block_timestamp e)\<rparr>,
                       [EncryptedDataSubmitted (msg_sender e) b d]))"
    by (simp add: submit_throttled[OF assms])
  have b: "2 ^ 256 \<le> unat (lastSubmissionTime s (msg_sender e)) + unat (cooldownSeconds s) \<longrightarrow>
            submitEncryptedData e s b d = Inl ArithmeticPanic"
    using submit_overflow[OF assms] by blast
  have c: "unat (lastDecryptionRequestTime s (msg_sender e)) + unat (cooldownSeconds s) < 2 ^ 256
            \<longrightarrow>
            ((requestBatchSummaryDecryption P e s b = Inl CooldownActive)
               = (unat (block_timestamp e)
                    < unat (lastDecryptionRequestTime s (msg_sender e))
                      + unat (cooldownSeconds s)))
          \<and> (unat (lastDecryptionRequestTime s (msg_sender e)) + unat (cooldownSeconds s)
                \<le> unat (block_timestamp e) \<and> isBatchClosed s b \<longrightarrow>
              (\<exists>s' evs. requestBatchSummaryDecryption P e s b = Inr (s', evs)
                 \<and> lastDecryptionRequestTime s'
                     = (lastDecryptionRequestTime s)(msg_sender e := block_timestamp e)))"
    by (simp add: request_throttled[OF assms])
  have d: "2 ^ 256 \<le> unat (lastDecryptionRequestTime s (msg_sender e))
                        + unat (cooldownSeconds s) \<longrightarrow>
            requestBatchSummaryDecryption P e s b = Inl ArithmeticPanic"
    using request_overflow[OF assms] by blast
  have f: "\<forall>s1 evs1 e2 b2 d2.
            submitEncryptedData e s b d = Inr (s1, evs1) \<and> msg_sender e2 = msg_sender e
            \<and> unat (block_timestamp e) + unat (cooldownSeconds s) < 2 ^ 256 \<longrightarrow>
              (unat (block_timestamp e2) < unat (block_timestamp e) + unat (cooldownSeconds s)
                 \<longrightarrow> submitEncryptedData e2 s1 b2 d2 = Inl CooldownActive)
            \<and> (unat (block_timestamp e) + unat (cooldownSeconds s) \<le> unat (block_timestamp e2)
                 \<and> \<not> isBatchClosed s b2
                 \<longrightarrow> (\<exists>out. submitEncryptedData e2 s1 b2 d2 = Inr out))"
    using submit_again by blast
  from a b c d f show ?thesis by blast
qed

lemma overflow_world_storage:
  "storage overflow_world =
     (storage (deploy (call_env 1 0 0)))
       \<lparr>lastSubmissionTime := (\<lambda>_. 0)(1 := 100), cooldownSeconds := max_uint256\<rparr>"
  by (simp add: overflow_world_def run_def transact_def submitEncryptedData_def
      setCooldown_def onlyProvider_def onlyOwner_def whenNotPaused_def checked_add_def
      deploy_storage call_env_def)

theorem throttle_check_witness:
  "isProvider (storage (deploy (call_env 1 0 0))) (msg_sender (call_env 1 30 0))
   \<and> \<not> paused (storage (deploy (call_env 1 0 0)))
   \<and> submitEncryptedData (call_env 1 30 0) (storage (deploy (call_env 1 0 0))) 0 0xAB
       = Inl CooldownActive
   \<and> submitEncryptedData (call_env 1 100 0) (storage (deploy (call_env 1 0 0))) 0 0xAB
       = Inr ((storage (deploy (call_env 1 0 0)))
                \<lparr>lastSubmissionTime := (\<lambda>_. 0)(1 := 100)\<rparr>,
              [EncryptedDataSubmitted 1 0 0xAB])
   \<and> submitEncryptedData (call_env 1 130 0)
        ((storage (deploy (call_env 1 0 0)))\<lparr>lastSubmissionTime := (\<lambda>_. 0)(1 := 100)\<rparr>)
        0 0xCD = Inl CooldownActive
   \<and> (\<exists>out. submitEncryptedData (call_env 1 160 0)
        ((storage (deploy (call_env 1 0 0)))\<lparr>lastSubmissionTime := (\<lambda>_. 0)(1 := 100)\<rparr>)
        0 0xCD = Inr out)"
proof -
  have p30: "isProvider (storage (deploy (call_env 1 0 0))) (msg_sender (call_env 1 30 0))"
    and p100: "isProvider (storage (deploy (call_env 1 0 0))) (msg_sender (call_env 1 100 0))"
    and np: "\<not> paused (storage (deploy (call_env 1 0 0)))"
    by (simp_all add: deploy_storage call_env_def)
  note T30 = throttle_check[OF p30 np, of 0 "0xAB" test_platform]
  note T100 = throttle_check[OF p100 np, of 0 "0xAB" test_platform]
  have r30: "submitEncryptedData (call_env 1 30 0) (storage (deploy (call_env 1 0 0))) 0 0xAB
       = Inl CooldownActive"
    using T30 [THEN conjunct1] by (simp add: deploy_storage call_env_def)
  have r100: "submitEncryptedData (call_env 1 100 0) (storage (deploy (call_env 1 0 0))) 0 0xAB
       = Inr ((storage (deploy (call_env 1 0 0)))
                \<lparr>lastSubmissionTime := (\<lambda>_. 0)(1 := 100)\<rparr>,
              [EncryptedDataSubmitted 1 0 0xAB])"
    using T100 [THEN conjunct1] by (simp add: deploy_storage call_env_def)
  note again = T100 [THEN conjunct2, THEN conjunct2, THEN conjunct2, THEN conjunct2,
    THEN spec, THEN spec, THEN spec, THEN spec, THEN spec, THEN mp]
  have fits: "unat (block_timestamp (call_env 1 100 0))
        + unat (cooldownSeconds (storage (deploy (call_env 1 0 0)))) < 2 ^ 256"
    by (simp add: deploy_storage call_env_def)
  have r130: "submitEncryptedData (call_env 1 130 0)
        ((storage (deploy (call_env 1 0 0)))\<lparr>lastSubmissionTime := (\<lambda>_. 0)(1 := 100)\<rparr>)
        0 0xCD = Inl CooldownActive"
    using again [of _ _ "call_env 1 130 0" 0 "0xCD", OF conjI [OF r100 conjI [OF _ fits]]]
    by (simp add: deploy_storage call_env_def)
  have r160: "\<exists>out. submitEncryptedData (call_env 1 160 0)
        ((storage (deploy (call_env 1 0 0)))\<lparr>lastSubmissionTime := (\<lambda>_. 0)(1 := 100)\<rparr>)
        0 0xCD = Inr out"
    using again [of _ _ "call_env 1 160 0" 0 "0xCD", OF conjI [OF r100 conjI [OF _ fits]]]
    by (simp add: deploy_storage call_env_def)
  from p30 np r30 r100 r130 r160 show ?thesis by blast
qed

text \<open>
  The claim as stated fails where the sum leaves the 256-bit range. The owner, a provider,
  has submitted at time 100, and the cooldown is now the largest \<open>uint256\<close>. At time 200
  the current time is below the last accepted time plus the cooldown, yet the call does
  not revert with \<open>CooldownActive\<close>: the checked addition panics.
\<close>

theorem throttle_overflow_counterexample:
  "isProvider (storage overflow_world) (msg_sender (call_env 1 200 0))
   \<and> \<not> paused (storage overflow_world)
   \<and> unat (block_timestamp (call_env 1 200 0))
       < unat (lastSubmissionTime (storage overflow_world) (msg_sender (call_env 1 200 0)))
         + unat (cooldownSeconds (storage overflow_world))
   \<and> submitEncryptedData (call_env 1 200 0) (storage overflow_world) 0 0xCD
       = Inl ArithmeticPanic
   \<and> submitEncryptedData (call_env 1 200 0) (storage overflow_world) 0 0xCD
       \<noteq> Inl CooldownActive"
  by (simp add: overflow_world_storage deploy_storage call_env_def max_uint256_def
      submitEncryptedData_def onlyProvider_def whenNotPaused_def checked_add_def)

end
